theory Spec2Isabelle
  imports Complex_Main
begin

section \<open>The Information Distillation Network of \<^verbatim>\<open>VSR/Models/Idn.py\<close>\<close>

text \<open>
  The module builds a TensorFlow graph; it computes no number itself. The graph is
  embedded as a term: every library call of the source is one constructor carrying the
  arguments the source passes, in the source's order. Python floats (\<^verbatim>\<open>leaky_slope\<close>,
  \<^verbatim>\<open>weight_decay\<close>) are only handed on to the library and are modelled as reals on
  which no arithmetic is done. \<^verbatim>\<open>tf.name_scope\<close> only prefixes operation names and
  is left out.

  The errors of the model are the exceptions that the module's own Python raises (an
  index into an empty list, a division by zero, a missing dictionary key) and the
  \<^verbatim>\<open>ValueError\<close> with which the library refuses to build an operation from the
  module's parameters: a layer whose filter count is not positive or whose input has no
  known channel count, and an addition of two tensors whose channel counts do not go
  together. A hook that raises returns no object.
\<close>

subsection \<open>Graph terms\<close>

type_synonym pyfloat = real

datatype dtype = UInt8 | Float32

datatype padding = Same

datatype regularizer = L2 pyfloat

datatype initializer = HeNormal

datatype tensor =
    Extern string "int option"
  | Placeholder dtype "int option list"
  | Cast tensor dtype
  | Conv2d tensor int int padding regularizer initializer
  | Conv2dTranspose tensor int int int padding regularizer initializer
  | LeakyRelu tensor pyfloat
  | SliceTo tensor int
  | SliceFrom tensor int
  | Add tensor tensor
  | Concat "tensor list" int
  | KernelRegularization tensor
  | AddN "tensor list"
  | MeanSquaredError tensor tensor
  | AbsoluteDifference tensor tensor
  | Psnr tensor tensor int
  | Ssim tensor tensor int
  | ReduceMean tensor
  | AdamMinimize tensor tensor

text \<open>
  \<^item> \<open>Extern n c\<close> is a tensor made outside this module (by the base class), known here
    by a label and by its static channel count \<open>c\<close>, if it has one.
  \<^item> \<open>Placeholder t shp\<close> is \<^verbatim>\<open>tf.placeholder(t, shape=shp)\<close>.
  \<^item> \<open>Conv2d x f k p r i\<close> is
    \<^verbatim>\<open>tf.layers.conv2d(x, f, k, padding=p, kernel_regularizer=r, kernel_initializer=i)\<close>,
    and \<open>Conv2dTranspose x f k st p r i\<close> is \<^verbatim>\<open>tf.layers.conv2d_transpose\<close> with
    \<^verbatim>\<open>strides=st\<close>.
  \<^item> \<open>SliceTo x k\<close> is \<^verbatim>\<open>x[..., :k]\<close> and \<open>SliceFrom x k\<close> is \<^verbatim>\<open>x[..., k:]\<close>.
  \<^item> \<open>Concat ts a\<close> is \<^verbatim>\<open>tf.concat(ts, axis=a)\<close>; \<open>AddN ts\<close> is \<^verbatim>\<open>tf.add_n(ts)\<close>.
  \<^item> \<open>KernelRegularization y\<close> is the penalty that the layer with output \<open>y\<close> puts
    into the graph's collection of regularization losses.
  \<^item> \<open>Psnr a b m\<close> and \<open>Ssim a b m\<close> are \<^verbatim>\<open>tf.image.psnr\<close> and
    \<^verbatim>\<open>tf.image.ssim\<close> with \<^verbatim>\<open>max_val=m\<close>.
  \<^item> \<open>AdamMinimize lr l\<close> is \<^verbatim>\<open>tf.train.AdamOptimizer(lr).minimize(l)\<close>.
\<close>

datatype error = IndexError | ZeroDivisionError | KeyError string | ValueError

subsection \<open>The object and the graph collections\<close>

text \<open>
  One record holds the attributes of \<^verbatim>\<open>self\<close> and the two collections of the default
  graph that the module reads or writes: the regularization losses (written by every
  layer with a kernel regularizer, read by \<^verbatim>\<open>tf.losses.get_regularization_losses\<close>)
  and the summaries (written by \<^verbatim>\<open>tf.summary.scalar\<close>). The attributes
  \<^verbatim>\<open>self.D\<close>, \<^verbatim>\<open>self.d\<close> and \<^verbatim>\<open>self.s\<close> carry the names of the constructor's
  parameters they are set from.
\<close>

record net =
  scale :: int
  blocks :: int
  filters :: int
  delta :: int
  slice_factor :: int
  leaky_slope :: pyfloat
  weight_decay :: pyfloat
  fine_tune :: bool
  name :: string
  learning_rate :: tensor
  inputs_preproc :: "tensor list"
  outputs :: "tensor list"
  label :: "tensor list"
  loss :: "tensor list"
  metrics :: "string \<rightharpoonup> tensor"
  regularization_losses :: "tensor list"
  summaries :: "(string \<times> tensor) list"

subsection \<open>The constructor\<close>

text \<open>
  \<^verbatim>\<open>__init__\<close> stores its eight keyword parameters and then runs the constructor of
  the base class, which is not part of this module and is a parameter here.
\<close>

definition default_blocks :: int where "default_blocks = 4"
definition default_filters :: int where "default_filters = 64"
definition default_delta :: int where "default_delta = 16"
definition default_slice_factor :: int where "default_slice_factor = 4"
definition default_leaky_slope :: pyfloat where "default_leaky_slope = 0.05"
definition default_weight_decay :: pyfloat where "default_weight_decay = 0.0001"
definition default_fine_tune :: bool where "default_fine_tune = False"
definition default_name :: string where "default_name = ''idn''"

definition init ::
  "(int \<Rightarrow> net \<Rightarrow> net) \<Rightarrow> net \<Rightarrow> int \<Rightarrow> int \<Rightarrow> int \<Rightarrow> int \<Rightarrow> int \<Rightarrow> pyfloat \<Rightarrow> pyfloat \<Rightarrow> bool
     \<Rightarrow> string \<Rightarrow> net" where
  "init super_init self sc bl fi de sl ls wd ft nm =
     super_init sc (self\<lparr>blocks := bl, filters := fi, delta := de, slice_factor := sl,
                         leaky_slope := ls, weight_decay := wd, fine_tune := ft, name := nm\<rparr>)"

subsection \<open>Static channel counts\<close>

text \<open>
  The library infers the static shape of every tensor while the graph is built. Only the
  channel axis (the last one) matters to this module. \<open>slice_stop n k\<close> is the
  normalised index at which \<^verbatim>\<open>x[..., :k]\<close> ends and \<^verbatim>\<open>x[..., k:]\<close> starts on
  an axis of length \<open>n\<close>: a negative \<open>k\<close> counts from the end, and the index is
  clamped to the axis. The binary \<^verbatim>\<open>+\<close> broadcasts: two sizes go together when
  they are equal or one of them is 1. \<open>channels t\<close> is the static size of the channel axis
  of \<open>t\<close>, \<open>None\<close> where it is not known or the tensor has no such axis; a convolution
  has as many channels as it has filters, and a concatenation along the last axis has the
  sum of the channels of its parts. Sizes that are not known statically are checked only
  when the graph runs, so \<open>add_compatible\<close> lets them pass.
\<close>

definition slice_stop :: "int \<Rightarrow> int \<Rightarrow> int" where
  "slice_stop n k = (if k < 0 then max 0 (n + k) else min k n)"

definition broadcastable :: "int \<Rightarrow> int \<Rightarrow> bool" where
  "broadcastable m n = (m = n \<or> m = 1 \<or> n = 1)"

fun channels :: "tensor \<Rightarrow> int option" where
  "channels (Extern _ c) = c"
| "channels (Placeholder _ shp) = (if shp = [] then None else last shp)"
| "channels (Cast x _) = channels x"
| "channels (Conv2d x f _ _ _ _) = Some f"
| "channels (Conv2dTranspose x f _ _ _ _ _) = Some f"
| "channels (LeakyRelu x _) = channels x"
| "channels (SliceTo x k) = map_option (\<lambda>n. slice_stop n k) (channels x)"
| "channels (SliceFrom x k) = map_option (\<lambda>n. n - slice_stop n k) (channels x)"
| "channels (Add a b) =
     (case (channels a, channels b) of
        (Some m, Some n) \<Rightarrow> if broadcastable m n then Some (if m = 1 then n else m) else None
      | _ \<Rightarrow> None)"
| "channels (Concat ts a) =
     (if a = - 1 \<and> list_all (\<lambda>t. channels t \<noteq> None) ts
      then Some (sum_list (map (\<lambda>t. the (channels t)) ts)) else None)"
| "channels _ = None"

definition add_compatible :: "tensor \<Rightarrow> tensor \<Rightarrow> bool" where
  "add_compatible a b =
     (case (channels a, channels b) of (Some m, Some n) \<Rightarrow> broadcastable m n | _ \<Rightarrow> True)"

subsection \<open>Layers\<close>

text \<open>
  Every convolution of the module is created with \<^verbatim>\<open>padding='same'\<close>, an L2 kernel
  regularizer of strength \<^verbatim>\<open>self.weight_decay\<close> and the He-normal initializer. The
  library refuses the layer with \<^verbatim>\<open>ValueError\<close> when the filter count is not positive
  or the channel dimension of the input is not defined. Creating the layer appends its
  penalty to the regularization losses.
\<close>

definition layer_refused :: "tensor \<Rightarrow> int \<Rightarrow> bool" where
  "layer_refused x f = (f \<le> 0 \<or> channels x = None)"

definition conv2d :: "tensor \<Rightarrow> int \<Rightarrow> int \<Rightarrow> net \<Rightarrow> error + (tensor \<times> net)" where
  "conv2d x f k self =
     (if layer_refused x f then Inl ValueError
      else
        let y = Conv2d x f k Same (L2 (weight_decay self)) HeNormal
        in Inr (y, self\<lparr>regularization_losses :=
                         regularization_losses self @ [KernelRegularization y]\<rparr>))"

definition conv2d_transpose ::
  "tensor \<Rightarrow> int \<Rightarrow> int \<Rightarrow> int \<Rightarrow> net \<Rightarrow> error + (tensor \<times> net)" where
  "conv2d_transpose x f k st self =
     (if layer_refused x f then Inl ValueError
      else
        let y = Conv2dTranspose x f k st Same (L2 (weight_decay self)) HeNormal
        in Inr (y, self\<lparr>regularization_losses :=
                         regularization_losses self @ [KernelRegularization y]\<rparr>))"

text \<open>
  The loop \<^verbatim>\<open>for _D in Ds: x = conv2d(x, _D, 3, ...); x = leaky_relu(x, slope)\<close>,
  which occurs twice in \<^verbatim>\<open>_make_idn\<close>. It stops at the first layer that is refused.
\<close>

fun conv_relu_loop :: "int list \<Rightarrow> tensor \<Rightarrow> net \<Rightarrow> error + (tensor \<times> net)" where
  "conv_relu_loop [] x self = Inr (x, self)"
| "conv_relu_loop (D' # Ds) x self =
     (case conv2d x D' 3 self of
        Inl e \<Rightarrow> Inl e
      | Inr (x1, self1) \<Rightarrow> conv_relu_loop Ds (LeakyRelu x1 (leaky_slope self1)) self1)"

subsection \<open>The distillation block\<close>

text \<open>
  \<^verbatim>\<open>_make_idn(self, inputs, D3, d, s)\<close>. The floor division \<^verbatim>\<open>D3 // s\<close> is evaluated
  after the first three layers exist and raises \<^verbatim>\<open>ZeroDivisionError\<close> for \<open>s = 0\<close>;
  \<open>div\<close> on \<open>int\<close> rounds towards minus infinity as \<^verbatim>\<open>//\<close> does. The statement
  \<^verbatim>\<open>x += tf.concat([inputs, R], axis=-1)\<close> builds the concatenation and then the
  addition, which the library refuses with \<^verbatim>\<open>ValueError\<close> when the channel counts of
  its two operands do not go together.
\<close>

definition make_idn :: "net \<Rightarrow> tensor \<Rightarrow> int \<Rightarrow> int \<Rightarrow> int \<Rightarrow> error + (tensor \<times> net)" where
  "make_idn self inputs D3 d s =
     (let D1 = D3 - d;
          D2 = D1 - d;
          D4 = D3;
          D5 = D4 - d;
          D6 = D4 + d;
          D = [D1, D2, D3, D4, D5, D6]
      in (case conv_relu_loop (take 3 D) inputs self of
            Inl e \<Rightarrow> Inl e
          | Inr (x, self1) \<Rightarrow>
              (if s = 0 then Inl ZeroDivisionError
               else
                 (let R = SliceTo x (D3 div s);
                      P2 = SliceFrom x (D3 div s)
                  in (case conv_relu_loop (drop 3 D) P2 self1 of
                        Inl e \<Rightarrow> Inl e
                      | Inr (x', self2) \<Rightarrow>
                          (let c = Concat [inputs, R] (- 1)
                           in (if \<not> add_compatible x' c then Inl ValueError
                               else conv2d (Add x' c) D3 1 self2)))))))"

subsection \<open>The three hooks\<close>

text \<open>
  The loop \<^verbatim>\<open>for _ in range(self.blocks): x = self._make_idn(x, self.D, self.d, self.s)\<close>
  runs \<open>nat (blocks self)\<close> times (not at all for a negative count).
\<close>

fun distillation_blocks :: "nat \<Rightarrow> tensor \<Rightarrow> net \<Rightarrow> error + (tensor \<times> net)" where
  "distillation_blocks 0 x self = Inr (x, self)"
| "distillation_blocks (Suc n) x self =
     (case make_idn self x (filters self) (delta self) (slice_factor self) of
        Inl e \<Rightarrow> Inl e
      | Inr (x', self') \<Rightarrow> distillation_blocks n x' self')"

text \<open>
  \<^verbatim>\<open>build_graph\<close> first runs the base class's \<^verbatim>\<open>build_graph\<close>, which is not part
  of this module and is the parameter \<open>super_build_graph\<close>; \<^verbatim>\<open>self.inputs_preproc[-1]\<close>
  raises \<^verbatim>\<open>IndexError\<close> on an empty list. The output is appended only when every layer
  has been built.
\<close>

definition build_graph :: "(net \<Rightarrow> error + net) \<Rightarrow> net \<Rightarrow> error + net" where
  "build_graph super_build_graph self0 =
     (case super_build_graph self0 of
        Inl e \<Rightarrow> Inl e
      | Inr self \<Rightarrow>
          (if inputs_preproc self = [] then Inl IndexError
           else
             (let x = last (inputs_preproc self)
              in (case conv2d x (filters self) 3 self of
                    Inl e \<Rightarrow> Inl e
                  | Inr (x1, self1) \<Rightarrow>
                      (let x2 = LeakyRelu x1 (leaky_slope self1)
                       in (case conv2d x2 (filters self1) 3 self1 of
                             Inl e \<Rightarrow> Inl e
                           | Inr (x3, self2) \<Rightarrow>
                               (let x4 = LeakyRelu x3 (leaky_slope self2)
                                in (case distillation_blocks (nat (blocks self2)) x4 self2 of
                                      Inl e \<Rightarrow> Inl e
                                    | Inr (x5, self3) \<Rightarrow>
                                        (case conv2d_transpose x5 1 17 (scale self3) self3 of
                                           Inl e \<Rightarrow> Inl e
                                         | Inr (x6, self4) \<Rightarrow>
                                             Inr (self4\<lparr>outputs := outputs self4 @ [x6]\<rparr>))))))))))"

text \<open>
  \<^verbatim>\<open>build_loss\<close>. The label is appended first, so \<^verbatim>\<open>self.label[-1]\<close> cannot fail;
  \<^verbatim>\<open>self.outputs[-1]\<close> raises \<^verbatim>\<open>IndexError\<close> when no output has been built.
\<close>

definition build_loss :: "net \<Rightarrow> error + net" where
  "build_loss self0 =
     (let self = self0\<lparr>label := label self0 @ [Placeholder UInt8 [None, None, None, Some 1]]\<rparr>;
          y_true = Cast (last (label self)) Float32
      in if outputs self = [] then Inl IndexError
         else
           let y_pred = last (outputs self);
               mse = MeanSquaredError y_true y_pred;
               mae = AbsoluteDifference y_true y_pred;
               regular_loss = AddN (regularization_losses self);
               loss' = (if fine_tune self then Add mae regular_loss else Add mse regular_loss);
               self1 = self\<lparr>loss := loss self @ [AdamMinimize (learning_rate self) loss']\<rparr>;
               self2 = self1\<lparr>metrics := (metrics self1)(''mse'' \<mapsto> mse)\<rparr>;
               self3 = self2\<lparr>metrics := (metrics self2)(''mae'' \<mapsto> mae)\<rparr>;
               self4 = self3\<lparr>metrics := (metrics self3)(''regularization'' \<mapsto> regular_loss)\<rparr>;
               self5 = self4\<lparr>metrics := (metrics self4)(''psnr'' \<mapsto> Psnr y_true y_pred 255)\<rparr>;
               self6 = self5\<lparr>metrics := (metrics self5)(''ssim'' \<mapsto> Ssim y_true y_pred 255)\<rparr>
           in Inr self6)"

text \<open>
  \<^verbatim>\<open>build_summary\<close>. \<^verbatim>\<open>tf.summary.scalar(n, t)\<close> appends the summary to the graph's
  summaries; a missing key of \<^verbatim>\<open>self.metrics\<close> raises \<^verbatim>\<open>KeyError\<close>.
\<close>

definition metric :: "net \<Rightarrow> string \<Rightarrow> error + tensor" where
  "metric self k = (case metrics self k of None \<Rightarrow> Inl (KeyError k) | Some t \<Rightarrow> Inr t)"

definition summary_scalar :: "string \<Rightarrow> tensor \<Rightarrow> net \<Rightarrow> net" where
  "summary_scalar n t self = self\<lparr>summaries := summaries self @ [(n, t)]\<rparr>"

definition build_summary :: "net \<Rightarrow> error + net" where
  "build_summary self =
     (case metric self ''mse'' of Inl e \<Rightarrow> Inl e | Inr mse \<Rightarrow>
       (let self1 = summary_scalar ''loss/mse'' mse self in
        (case metric self1 ''mae'' of Inl e \<Rightarrow> Inl e | Inr mae \<Rightarrow>
          (let self2 = summary_scalar ''loss/mae'' mae self1 in
           (case metric self2 ''regularization'' of Inl e \<Rightarrow> Inl e | Inr reg \<Rightarrow>
             (let self3 = summary_scalar ''loss/weight'' reg self2 in
              (case metric self3 ''psnr'' of Inl e \<Rightarrow> Inl e | Inr psnr \<Rightarrow>
                (let self4 = summary_scalar ''metric/psnr'' (ReduceMean psnr) self3 in
                 (case metric self4 ''ssim'' of Inl e \<Rightarrow> Inl e | Inr ssim \<Rightarrow>
                   (let self5 = summary_scalar ''metric/ssim'' (ReduceMean ssim) self4 in
                    Inr self5))))))))))"

text \<open>
  The two operands of the addition under the final convolution of a block, and whether
  the block that \<^verbatim>\<open>_make_idn\<close> returned adds two tensors whose channel counts go
  together.
\<close>

fun residual_operands :: "tensor \<Rightarrow> (tensor \<times> tensor) option" where
  "residual_operands (Conv2d (Add a b) _ _ _ _ _) = Some (a, b)"
| "residual_operands _ = None"

definition residual_add_compatible :: "error + tensor \<times> net \<Rightarrow> bool" where
  "residual_add_compatible r =
     (case r of
        Inl _ \<Rightarrow> False
      | Inr (out, _) \<Rightarrow>
          (case residual_operands out of None \<Rightarrow> False | Some (a, b) \<Rightarrow> add_compatible a b))"

subsection \<open>What a layer changes\<close>

text \<open>
  \<open>only_regularization_losses_grow a b n\<close>: the state \<open>b\<close> is \<open>a\<close> in every field but
  the regularization losses, which are those of \<open>a\<close> followed by \<open>n\<close> new entries.
\<close>

definition only_regularization_losses_grow :: "net \<Rightarrow> net \<Rightarrow> nat \<Rightarrow> bool" where
  "only_regularization_losses_grow self self' n =
     (self' = self\<lparr>regularization_losses := regularization_losses self'\<rparr> \<and>
      take (length (regularization_losses self)) (regularization_losses self') = regularization_losses self \<and>
      length (regularization_losses self') = length (regularization_losses self) + n)"

subsection \<open>The architecture in the words of the specification\<close>

text \<open>
  The stages the specification names, as terms: a 3x3 convolution followed by leaky
  ReLU, the enhancement sub-block, the 1x1 compression, the distillation block, feature
  extraction, upsampling and the network. The hooks above are compared with them.
\<close>

definition conv3x3_relu :: "pyfloat \<Rightarrow> pyfloat \<Rightarrow> int \<Rightarrow> tensor \<Rightarrow> tensor" where
  "conv3x3_relu wd ls f x = LeakyRelu (Conv2d x f 3 Same (L2 wd) HeNormal) ls"

definition first_three :: "pyfloat \<Rightarrow> pyfloat \<Rightarrow> int \<Rightarrow> int \<Rightarrow> tensor \<Rightarrow> tensor" where
  "first_three wd ls D3 d inputs =
     conv3x3_relu wd ls D3 (conv3x3_relu wd ls (D3 - d - d) (conv3x3_relu wd ls (D3 - d) inputs))"

definition last_three :: "pyfloat \<Rightarrow> pyfloat \<Rightarrow> int \<Rightarrow> int \<Rightarrow> tensor \<Rightarrow> tensor" where
  "last_three wd ls D3 d p =
     conv3x3_relu wd ls (D3 + d) (conv3x3_relu wd ls (D3 - d) (conv3x3_relu wd ls D3 p))"

definition enhancement :: "pyfloat \<Rightarrow> pyfloat \<Rightarrow> int \<Rightarrow> int \<Rightarrow> int \<Rightarrow> tensor \<Rightarrow> tensor" where
  "enhancement wd ls D3 d s inputs =
     (let x3 = first_three wd ls D3 d inputs;
          R = SliceTo x3 (D3 div s);
          P2 = SliceFrom x3 (D3 div s)
      in Add (last_three wd ls D3 d P2) (Concat [inputs, R] (- 1)))"

definition retained_slice :: "pyfloat \<Rightarrow> pyfloat \<Rightarrow> int \<Rightarrow> int \<Rightarrow> int \<Rightarrow> tensor \<Rightarrow> tensor" where
  "retained_slice wd ls D3 d s inputs = SliceTo (first_three wd ls D3 d inputs) (D3 div s)"

definition processed_slice :: "pyfloat \<Rightarrow> pyfloat \<Rightarrow> int \<Rightarrow> int \<Rightarrow> int \<Rightarrow> tensor \<Rightarrow> tensor" where
  "processed_slice wd ls D3 d s inputs = SliceFrom (first_three wd ls D3 d inputs) (D3 div s)"

definition compression :: "pyfloat \<Rightarrow> int \<Rightarrow> tensor \<Rightarrow> tensor" where
  "compression wd D3 x = Conv2d x D3 1 Same (L2 wd) HeNormal"

definition distillation_block :: "pyfloat \<Rightarrow> pyfloat \<Rightarrow> int \<Rightarrow> int \<Rightarrow> int \<Rightarrow> tensor \<Rightarrow> tensor" where
  "distillation_block wd ls D3 d s inputs = compression wd D3 (enhancement wd ls D3 d s inputs)"

definition feature_extraction :: "pyfloat \<Rightarrow> pyfloat \<Rightarrow> int \<Rightarrow> tensor \<Rightarrow> tensor" where
  "feature_extraction wd ls f x = conv3x3_relu wd ls f (conv3x3_relu wd ls f x)"




text \<open>
  The conditions under which nothing stops the construction of a block: the slice factor
  is not zero, each of the six filter counts is positive, the input has a known channel
  count, and the two operands of the residual addition go together.
\<close>

definition block_accepted :: "pyfloat \<Rightarrow> pyfloat \<Rightarrow> int \<Rightarrow> int \<Rightarrow> int \<Rightarrow> tensor \<Rightarrow> bool" where
  "block_accepted wd ls D3 d s inputs =
     (s \<noteq> 0 \<and> 1 \<le> D3 - d - d \<and> 1 \<le> D3 - d \<and> 1 \<le> D3 \<and> 1 \<le> D3 + d \<and>
      channels inputs \<noteq> None \<and>
      add_compatible (last_three wd ls D3 d (processed_slice wd ls D3 d s inputs))
        (Concat [inputs, retained_slice wd ls D3 d s inputs] (- 1)))"

subsection \<open>An object to run the hooks on\<close>

text \<open>
  An object as the constructor leaves it with its default parameters and scale 2, and a
  base-class \<^verbatim>\<open>build_graph\<close> that supplies one preprocessed single-channel input.
\<close>

definition example_net :: net where
  "example_net =
     \<lparr>scale = 2, blocks = default_blocks, filters = default_filters, delta = default_delta,
      slice_factor = default_slice_factor, leaky_slope = default_leaky_slope,
      weight_decay = default_weight_decay, fine_tune = default_fine_tune, name = default_name,
      learning_rate = Extern ''learning_rate'' None,
      inputs_preproc = [], outputs = [], label = [], loss = [], metrics = Map.empty,
      regularization_losses = [], summaries = []\<rparr>"


text \<open>
  The same object once a graph has been built: it has an output, and the graph has a
  regularization loss.
\<close>

definition example_built :: net where
  "example_built =
     example_net\<lparr>inputs_preproc := [Extern ''input/lr'' (Some 1)],
                  outputs := [Extern ''sr'' (Some 1)],
                  regularization_losses := [KernelRegularization (Extern ''sr'' (Some 1))]\<rparr>"

subsection \<open>The keys of the metrics\<close>


section \<open>Building blocks of the proofs\<close>

lemma grow_refl: "only_regularization_losses_grow self self 0"
  by (simp add: only_regularization_losses_grow_def)

lemma grow_trans:
  assumes "only_regularization_losses_grow a b m" "only_regularization_losses_grow b c n"
  shows "only_regularization_losses_grow a c (m + n)"
proof -
  from assms have b: "b = a\<lparr>regularization_losses := regularization_losses b\<rparr>"
    and c: "c = b\<lparr>regularization_losses := regularization_losses c\<rparr>"
    and tb: "take (length (regularization_losses a)) (regularization_losses b) = regularization_losses a"
    and tc: "take (length (regularization_losses b)) (regularization_losses c) = regularization_losses b"
    and lb: "length (regularization_losses b) = length (regularization_losses a) + m"
    and lc: "length (regularization_losses c) = length (regularization_losses b) + n"
    by (simp_all add: only_regularization_losses_grow_def)
  have "c = a\<lparr>regularization_losses := regularization_losses c\<rparr>"
    by (subst c, subst b) simp
  moreover have "take (length (regularization_losses a)) (regularization_losses c) = regularization_losses a"
  proof -
    have "take (length (regularization_losses a)) (regularization_losses c)
        = take (length (regularization_losses a)) (take (length (regularization_losses b)) (regularization_losses c))"
      using lb by (simp add: min_def)
    then show ?thesis using tb tc by simp
  qed
  ultimately show ?thesis using lb lc by (simp add: only_regularization_losses_grow_def)
qed

lemma grow_fields:
  assumes "only_regularization_losses_grow a b n"
  shows "weight_decay b = weight_decay a" "leaky_slope b = leaky_slope a" "filters b = filters a"
    "delta b = delta a" "slice_factor b = slice_factor a" "scale b = scale a" "blocks b = blocks a"
    "outputs b = outputs a" "label b = label a" "loss b = loss a" "metrics b = metrics a"
    "inputs_preproc b = inputs_preproc a" "summaries b = summaries a"
    "fine_tune b = fine_tune a" "name b = name a" "learning_rate b = learning_rate a"
proof -
  from assms have b: "b = a\<lparr>regularization_losses := regularization_losses b\<rparr>"
    by (simp add: only_regularization_losses_grow_def)
  show "weight_decay b = weight_decay a" by (subst b) simp
  show "leaky_slope b = leaky_slope a" by (subst b) simp
  show "filters b = filters a" by (subst b) simp
  show "delta b = delta a" by (subst b) simp
  show "slice_factor b = slice_factor a" by (subst b) simp
  show "scale b = scale a" by (subst b) simp
  show "blocks b = blocks a" by (subst b) simp
  show "outputs b = outputs a" by (subst b) simp
  show "label b = label a" by (subst b) simp
  show "loss b = loss a" by (subst b) simp
  show "metrics b = metrics a" by (subst b) simp
  show "inputs_preproc b = inputs_preproc a" by (subst b) simp
  show "summaries b = summaries a" by (subst b) simp
  show "fine_tune b = fine_tune a" by (subst b) simp
  show "name b = name a" by (subst b) simp
  show "learning_rate b = learning_rate a" by (subst b) simp
qed

lemma conv2d_Inr:
  assumes "conv2d x f k self = Inr (y, self')"
  shows "y = Conv2d x f k Same (L2 (weight_decay self)) HeNormal"
    and "only_regularization_losses_grow self self' 1"
    and "1 \<le> f" and "channels x \<noteq> None"
  using assms
  by (auto simp: conv2d_def layer_refused_def only_regularization_losses_grow_def Let_def
      split: if_splits)

lemma conv2d_ok:
  assumes "1 \<le> f" and "channels x \<noteq> None"
  shows "\<exists>self'. conv2d x f k self = Inr (Conv2d x f k Same (L2 (weight_decay self)) HeNormal, self')"
  using assms by (simp add: conv2d_def layer_refused_def Let_def)

lemma conv2d_refused: "f \<le> 0 \<or> channels x = None \<Longrightarrow> conv2d x f k self = Inl ValueError"
  by (simp add: conv2d_def layer_refused_def)



lemma channels_conv3x3_relu: "channels (conv3x3_relu wd ls f x) = Some f"
  by (simp add: conv3x3_relu_def)

lemma conv_relu_loop_Inr:
  assumes "conv_relu_loop Ds x self = Inr (y, self')"
  shows "y = foldl (\<lambda>t f. conv3x3_relu (weight_decay self) (leaky_slope self) f t) x Ds
       \<and> only_regularization_losses_grow self self' (length Ds)
       \<and> list_all (\<lambda>D'. 1 \<le> D') Ds \<and> (Ds = [] \<or> channels x \<noteq> None)"
  using assms
proof (induction Ds arbitrary: x self)
  case Nil
  then show ?case by (simp add: grow_refl)
next
  case (Cons D' Ds)
  from Cons.prems obtain x1 self1 where c: "conv2d x D' 3 self = Inr (x1, self1)"
    and r: "conv_relu_loop Ds (LeakyRelu x1 (leaky_slope self1)) self1 = Inr (y, self')"
    by (auto split: sum.splits)
  note k = conv2d_Inr [OF c]
  note f = grow_fields [OF k(2)]
  have x2: "LeakyRelu x1 (leaky_slope self1) = conv3x3_relu (weight_decay self) (leaky_slope self) D' x"
    by (simp add: k(1) f conv3x3_relu_def)
  from r have r': "conv_relu_loop Ds (conv3x3_relu (weight_decay self) (leaky_slope self) D' x) self1 =
      Inr (y, self')"
    by (simp only: x2)
  from Cons.IH [OF r'] have y: "y = foldl (\<lambda>t f. conv3x3_relu (weight_decay self) (leaky_slope self) f t)
        (conv3x3_relu (weight_decay self) (leaky_slope self) D' x) Ds"
    and g: "only_regularization_losses_grow self1 self' (length Ds)"
    and p: "list_all (\<lambda>D'. 1 \<le> D') Ds"
    by (simp_all add: f)
  have "only_regularization_losses_grow self self' (length (D' # Ds))"
    using grow_trans [OF k(2) g] by simp
  with y p k(3,4) show ?case by simp
qed

lemma conv_relu_loop_ok:
  assumes "list_all (\<lambda>D'. 1 \<le> D') Ds" and "Ds = [] \<or> channels x \<noteq> None"
  shows "\<exists>self'. conv_relu_loop Ds x self =
           Inr (foldl (\<lambda>t f. conv3x3_relu (weight_decay self) (leaky_slope self) f t) x Ds, self')"
  using assms
proof (induction Ds arbitrary: x self)
  case Nil
  show ?case by simp
next
  case (Cons D' Ds)
  from Cons.prems have d: "1 \<le> D'" and c: "channels x \<noteq> None" and p: "list_all (\<lambda>D'. 1 \<le> D') Ds"
    by simp_all
  from conv2d_ok [OF d c, of 3 self] obtain self1 where
    k: "conv2d x D' 3 self = Inr (Conv2d x D' 3 Same (L2 (weight_decay self)) HeNormal, self1)"
    by blast
  note f = grow_fields [OF conv2d_Inr(2) [OF k]]
  let ?x2 = "conv3x3_relu (weight_decay self) (leaky_slope self) D' x"
  have "Ds = [] \<or> channels ?x2 \<noteq> None" by (simp add: channels_conv3x3_relu)
  from Cons.IH [OF p this, of self1] obtain self' where
    r: "conv_relu_loop Ds ?x2 self1 =
          Inr (foldl (\<lambda>t f. conv3x3_relu (weight_decay self) (leaky_slope self) f t) ?x2 Ds, self')"
    by (auto simp: f)
  have "conv_relu_loop (D' # Ds) x self =
      Inr (foldl (\<lambda>t f. conv3x3_relu (weight_decay self) (leaky_slope self) f t) x (D' # Ds), self')"
    using r by (simp add: k f conv3x3_relu_def)
  then show ?case by blast
qed

lemma channels_first_three: "channels (first_three wd ls D3 d inputs) = Some D3"
  by (simp add: first_three_def channels_conv3x3_relu)

lemma channels_last_three: "channels (last_three wd ls D3 d p) = Some (D3 + d)"
  by (simp add: last_three_def channels_conv3x3_relu)

lemma channels_distillation_block: "channels (distillation_block wd ls D3 d s x) = Some D3"
  by (simp add: distillation_block_def compression_def)

lemma channels_block_input:
  "channels (((distillation_block wd ls fi de sl) ^^ n) (feature_extraction wd ls fi x)) = Some fi"
  by (cases n) (simp_all add: feature_extraction_def channels_conv3x3_relu channels_distillation_block)

lemma slice_stop_div:
  assumes "0 \<le> D3" "1 \<le> s"
  shows "slice_stop D3 (D3 div s) = D3 div s"
proof -
  have "0 \<le> D3 div s" using assms by (simp add: pos_imp_zdiv_nonneg_iff)
  moreover have "D3 div s \<le> D3"
    using zdiv_mono2 [of D3 1 s] assms by simp
  ultimately show ?thesis by (simp add: slice_stop_def)
qed

lemma enhancement_split:
  "enhancement wd ls D3 d s inputs =
     Add (last_three wd ls D3 d (processed_slice wd ls D3 d s inputs))
       (Concat [inputs, retained_slice wd ls D3 d s inputs] (- 1))"
  by (simp add: enhancement_def Let_def retained_slice_def processed_slice_def)

lemma channels_concat:
  "channels (Concat [inputs, retained_slice wd ls D3 d s inputs] (- 1)) =
     map_option (\<lambda>c. c + slice_stop D3 (D3 div s)) (channels inputs)"
  by (cases "channels inputs") (simp_all add: retained_slice_def channels_first_three)

lemma channels_Add:
  "channels a = Some m \<Longrightarrow> channels b = Some n \<Longrightarrow> broadcastable m n \<Longrightarrow>
   channels (Add a b) \<noteq> None"
  by simp

lemma make_idn_unfold:
  assumes "D1s = [D3 - d, D3 - d - d, D3]" and "D2s = [D3, D3 - d, D3 + d]"
  shows "make_idn self inputs D3 d s =
     (case conv_relu_loop D1s inputs self of
        Inl e \<Rightarrow> Inl e
      | Inr (x, self1) \<Rightarrow>
          (if s = 0 then Inl ZeroDivisionError
           else
             (case conv_relu_loop D2s (SliceFrom x (D3 div s)) self1 of
                Inl e \<Rightarrow> Inl e
              | Inr (x', self2) \<Rightarrow>
                  (if \<not> add_compatible x' (Concat [inputs, SliceTo x (D3 div s)] (- 1))
                   then Inl ValueError
                   else conv2d (Add x' (Concat [inputs, SliceTo x (D3 div s)] (- 1))) D3 1 self2))))"
proof -
  have t: "take 3 [D3 - d, D3 - d - d, D3, D3, D3 - d, D3 + d] = [D3 - d, D3 - d - d, D3]"
    "drop 3 [D3 - d, D3 - d - d, D3, D3, D3 - d, D3 + d] = [D3, D3 - d, D3 + d]"
    by simp_all
  show ?thesis
    unfolding assms make_idn_def Let_def t by (rule refl)
qed

lemma channels_enhancement:
  assumes "channels inputs \<noteq> None"
    and "add_compatible (last_three wd ls D3 d (processed_slice wd ls D3 d s inputs))
           (Concat [inputs, retained_slice wd ls D3 d s inputs] (- 1))"
  shows "channels (enhancement wd ls D3 d s inputs) \<noteq> None"
proof -
  from assms(1) obtain c where c: "channels inputs = Some c" by blast
  have cc: "channels (Concat [inputs, retained_slice wd ls D3 d s inputs] (- 1)) =
      Some (c + slice_stop D3 (D3 div s))"
    by (simp only: channels_concat c option.map)
  from assms(2) have "broadcastable (D3 + d) (c + slice_stop D3 (D3 div s))"
    by (simp only: add_compatible_def channels_last_three cc) simp
  from channels_Add [OF channels_last_three cc this] show ?thesis
    unfolding enhancement_split .
qed

lemma make_idn_Inr:
  assumes "make_idn self inputs D3 d s = Inr (out, self')"
  shows "out = distillation_block (weight_decay self) (leaky_slope self) D3 d s inputs"
    and "only_regularization_losses_grow self self' 7"
    and "block_accepted (weight_decay self) (leaky_slope self) D3 d s inputs"
proof -
  let ?wd = "weight_decay self" and ?ls = "leaky_slope self"
  define D1s where "D1s = [D3 - d, D3 - d - d, D3]"
  define D2s where "D2s = [D3, D3 - d, D3 + d]"
  note m = make_idn_unfold [OF D1s_def D2s_def, of self inputs s]
  from assms obtain x self1 where l1: "conv_relu_loop D1s inputs self = Inr (x, self1)"
    unfolding m by (auto split: sum.splits)
  from assms l1 have s0: "s \<noteq> 0"
    unfolding m by (auto split: if_splits)
  from assms l1 s0 obtain x' self2 where
    l2: "conv_relu_loop D2s (SliceFrom x (D3 div s)) self1 = Inr (x', self2)"
    unfolding m by (auto split: sum.splits)
  let ?c = "Concat [inputs, SliceTo x (D3 div s)] (- 1)"
  from assms l1 s0 l2 have ac: "add_compatible x' ?c"
    unfolding m by (auto split: if_splits)
  from assms l1 s0 l2 ac have c: "conv2d (Add x' ?c) D3 1 self2 = Inr (out, self')"
    unfolding m by simp
  have len: "length D1s = 3" "length D2s = 3" by (simp_all add: D1s_def D2s_def)
  note r1 = conv_relu_loop_Inr [OF l1]
  have g1: "only_regularization_losses_grow self self1 3"
    using conjunct1 [OF conjunct2 [OF r1]] by (simp only: len)
  have x: "x = first_three ?wd ?ls D3 d inputs"
    using conjunct1 [OF r1] by (simp add: first_three_def D1s_def)
  have p1: "1 \<le> D3 - d" "1 \<le> D3 - d - d" "1 \<le> D3" and ci: "channels inputs \<noteq> None"
    using conjunct2 [OF conjunct2 [OF r1]] by (simp_all add: D1s_def)
  note f1 = grow_fields [OF g1]
  note r2 = conv_relu_loop_Inr [OF l2]
  have g2: "only_regularization_losses_grow self1 self2 3"
    using conjunct1 [OF conjunct2 [OF r2]] by (simp only: len)
  have x': "x' = last_three ?wd ?ls D3 d (SliceFrom x (D3 div s))"
    using conjunct1 [OF r2] by (simp add: last_three_def f1 D2s_def)
  have p2: "1 \<le> D3 + d"
    using conjunct2 [OF conjunct2 [OF r2]] by (simp add: D2s_def)
  note g12 = grow_trans [OF g1 g2]
  note f2 = grow_fields [OF g12]
  note k = conv2d_Inr [OF c]
  have P2: "SliceFrom x (D3 div s) = processed_slice ?wd ?ls D3 d s inputs"
    and R: "SliceTo x (D3 div s) = retained_slice ?wd ?ls D3 d s inputs"
    by (simp_all add: x processed_slice_def retained_slice_def)
  show "out = distillation_block ?wd ?ls D3 d s inputs"
    by (simp add: k(1) f2 distillation_block_def compression_def enhancement_split x' P2 R)
  show "only_regularization_losses_grow self self' 7"
  proof -
    have "3 + 3 + 1 = (7::nat)" by arith
    with grow_trans [OF g12 k(2)] show ?thesis by (simp only:)
  qed
  show "block_accepted ?wd ?ls D3 d s inputs"
    using s0 p1 p2 ci ac by (simp add: block_accepted_def x' P2 R)
qed

lemma make_idn_ok:
  assumes "block_accepted (weight_decay self) (leaky_slope self) D3 d s inputs"
  shows "\<exists>self'. make_idn self inputs D3 d s =
           Inr (distillation_block (weight_decay self) (leaky_slope self) D3 d s inputs, self')"
proof -
  let ?wd = "weight_decay self" and ?ls = "leaky_slope self"
  define D1s where "D1s = [D3 - d, D3 - d - d, D3]"
  define D2s where "D2s = [D3, D3 - d, D3 + d]"
  note m = make_idn_unfold [OF D1s_def D2s_def, of self inputs s]
  let ?x = "first_three ?wd ?ls D3 d inputs"
  let ?P2 = "processed_slice ?wd ?ls D3 d s inputs"
  let ?x' = "last_three ?wd ?ls D3 d ?P2"
  let ?c = "Concat [inputs, retained_slice ?wd ?ls D3 d s inputs] (- 1)"
  from assms have s0: "s \<noteq> 0" and p: "1 \<le> D3 - d - d" "1 \<le> D3 - d" "1 \<le> D3" "1 \<le> D3 + d"
    and ci: "channels inputs \<noteq> None" and ac: "add_compatible ?x' ?c"
    by (simp_all add: block_accepted_def)
  have a1: "list_all (\<lambda>D'. 1 \<le> D') D1s" and a2: "list_all (\<lambda>D'. 1 \<le> D') D2s"
    using p by (simp_all add: D1s_def D2s_def)
  from conv_relu_loop_ok [OF a1, of inputs self] ci obtain self1 where
    l1: "conv_relu_loop D1s inputs self = Inr (?x, self1)"
    by (auto simp: first_three_def D1s_def)
  note f1 = grow_fields [OF conjunct1 [OF conjunct2 [OF conv_relu_loop_Inr [OF l1]]]]
  have cp: "D2s = [] \<or> channels ?P2 \<noteq> None"
    by (simp add: processed_slice_def channels_first_three)
  from conv_relu_loop_ok [OF a2 cp, of self1] obtain self2 where
    l2: "conv_relu_loop D2s ?P2 self1 = Inr (?x', self2)"
    by (auto simp: last_three_def f1 D2s_def)
  note f2 = grow_fields [OF conjunct1 [OF conjunct2 [OF conv_relu_loop_Inr [OF l2]]]]
  have ce: "channels (Add ?x' ?c) \<noteq> None"
    using channels_enhancement [OF ci ac] unfolding enhancement_split .
  from conv2d_ok [OF p(3) ce, of 1 self2] obtain self3 where
    c: "conv2d (Add ?x' ?c) D3 1 self2 = Inr (Conv2d (Add ?x' ?c) D3 1 Same (L2 ?wd) HeNormal, self3)"
    by (auto simp: f2 f1)
  have P2: "SliceFrom ?x (D3 div s) = ?P2" and R: "SliceTo ?x (D3 div s) = retained_slice ?wd ?ls D3 d s inputs"
    by (simp_all add: processed_slice_def retained_slice_def)
  have "make_idn self inputs D3 d s = Inr (Conv2d (Add ?x' ?c) D3 1 Same (L2 ?wd) HeNormal, self3)"
    unfolding m using s0 ac l2 c by (simp add: l1 P2 R)
  then show ?thesis
    by (auto simp: distillation_block_def compression_def enhancement_split)
qed

lemma make_idn_zero: "make_idn self inputs D3 d 0 \<noteq> Inr r"
  unfolding make_idn_unfold [OF refl refl] by (auto split: sum.splits)

lemma make_idn_zero_division:
  assumes "1 \<le> D3 - d - d" "1 \<le> D3 - d" "1 \<le> D3" "channels inputs \<noteq> None"
  shows "make_idn self inputs D3 d 0 = Inl ZeroDivisionError"
proof -
  define D1s where "D1s = [D3 - d, D3 - d - d, D3]"
  have a1: "list_all (\<lambda>D'. 1 \<le> D') D1s" using assms by (simp add: D1s_def)
  from conv_relu_loop_ok [OF a1, of inputs self] assms(4) obtain y self1 where
    l1: "conv_relu_loop D1s inputs self = Inr (y, self1)"
    by (auto simp: D1s_def)
  show ?thesis
    unfolding make_idn_unfold [OF D1s_def refl] by (simp add: l1)
qed

lemma block_accepted_natural:
  assumes "1 \<le> s" and "1 \<le> D3" and "d = D3 div s" and "2 * d < D3"
    and "channels inputs = Some D3"
  shows "block_accepted wd ls D3 d s inputs"
proof -
  have d0: "0 \<le> d" using assms(1-3) by (simp add: pos_imp_zdiv_nonneg_iff)
  have st: "slice_stop D3 (D3 div s) = d"
    using slice_stop_div [of D3 s] assms(1-3) by simp
  have cc: "channels (Concat [inputs, retained_slice wd ls D3 d s inputs] (- 1)) = Some (D3 + d)"
    by (simp only: channels_concat assms(5) option.map st)
  have "add_compatible (last_three wd ls D3 d (processed_slice wd ls D3 d s inputs))
          (Concat [inputs, retained_slice wd ls D3 d s inputs] (- 1))"
    by (simp only: add_compatible_def channels_last_three cc) (simp add: broadcastable_def)
  moreover have "s \<noteq> 0" "1 \<le> D3 - d - d" "1 \<le> D3 - d" "1 \<le> D3 + d"
    using assms(1,2,4) d0 by simp_all
  ultimately show ?thesis
    using assms(2,5) by (simp add: block_accepted_def)
qed





lemma build_graph_super_error:
  "super_build_graph self0 = Inl e \<Longrightarrow> build_graph super_build_graph self0 = Inl e"
  by (simp add: build_graph_def)

lemma build_graph_no_input:
  "super_build_graph self0 = Inr self \<Longrightarrow> inputs_preproc self = [] \<Longrightarrow>
   build_graph super_build_graph self0 = Inl IndexError"
  by (simp add: build_graph_def)

lemma build_loss_eq:
  assumes "outputs self \<noteq> []"
  shows "build_loss self =
     Inr (let y_true = Cast (Placeholder UInt8 [None, None, None, Some 1]) Float32;
              y_pred = last (outputs self);
              mse = MeanSquaredError y_true y_pred;
              mae = AbsoluteDifference y_true y_pred;
              reg = AddN (regularization_losses self)
          in self\<lparr>label := label self @ [Placeholder UInt8 [None, None, None, Some 1]],
                  loss := loss self @
                    [AdamMinimize (learning_rate self)
                       (if fine_tune self then Add mae reg else Add mse reg)],
                  metrics := (metrics self)(''mse'' \<mapsto> mse, ''mae'' \<mapsto> mae,
                    ''regularization'' \<mapsto> reg, ''psnr'' \<mapsto> Psnr y_true y_pred 255,
                    ''ssim'' \<mapsto> Ssim y_true y_pred 255)\<rparr>)"
  using assms by (simp add: build_loss_def Let_def)

lemma build_loss_empty: "outputs self = [] \<Longrightarrow> build_loss self = Inl IndexError"
  by (simp add: build_loss_def Let_def)


lemma init_fine_tune:
  assumes "\<And>sc a. fine_tune (super_init sc a) = fine_tune a"
  shows "fine_tune (init super_init self sc bl fi de sl ls wd ft nm) = ft"
  by (simp add: init_def assms)

lemma make_idn_add_refused:
  assumes "s \<noteq> 0" and "1 \<le> D3 - d - d" and "1 \<le> D3 - d" and "1 \<le> D3" and "1 \<le> D3 + d"
    and "channels inputs \<noteq> None"
    and "\<not> add_compatible
           (last_three (weight_decay self) (leaky_slope self) D3 d
              (processed_slice (weight_decay self) (leaky_slope self) D3 d s inputs))
           (Concat [inputs, retained_slice (weight_decay self) (leaky_slope self) D3 d s inputs]
              (- 1))"
  shows "make_idn self inputs D3 d s = Inl ValueError"
proof -
  let ?wd = "weight_decay self" and ?ls = "leaky_slope self"
  define D1s where "D1s = [D3 - d, D3 - d - d, D3]"
  define D2s where "D2s = [D3, D3 - d, D3 + d]"
  note m = make_idn_unfold [OF D1s_def D2s_def, of self inputs s]
  let ?x = "first_three ?wd ?ls D3 d inputs"
  let ?P2 = "processed_slice ?wd ?ls D3 d s inputs"
  let ?x' = "last_three ?wd ?ls D3 d ?P2"
  have a1: "list_all (\<lambda>D'. 1 \<le> D') D1s" and a2: "list_all (\<lambda>D'. 1 \<le> D') D2s"
    using assms(2-5) by (simp_all add: D1s_def D2s_def)
  from conv_relu_loop_ok [OF a1, of inputs self] assms(6) obtain self1 where
    l1: "conv_relu_loop D1s inputs self = Inr (?x, self1)"
    by (auto simp: first_three_def D1s_def)
  note f1 = grow_fields [OF conjunct1 [OF conjunct2 [OF conv_relu_loop_Inr [OF l1]]]]
  have cp: "D2s = [] \<or> channels ?P2 \<noteq> None"
    by (simp add: processed_slice_def channels_first_three)
  from conv_relu_loop_ok [OF a2 cp, of self1] obtain self2 where
    l2: "conv_relu_loop D2s ?P2 self1 = Inr (?x', self2)"
    by (auto simp: last_three_def f1 D2s_def)
  have P2: "SliceFrom ?x (D3 div s) = ?P2"
    and R: "SliceTo ?x (D3 div s) = retained_slice ?wd ?ls D3 d s inputs"
    by (simp_all add: processed_slice_def retained_slice_def)
  show ?thesis
    unfolding m using assms(1,7) l2 by (simp add: l1 P2 R)
qed

section \<open>The distillation block\<close>




text \<open>
  C5, as amended. In every distillation block built with a slice factor of at least one
  and a filter count that is not negative, the third convolution has \<open>D3\<close> channels, the
  split retains the first \<open>D3 div s\<close> of them and hands the remaining \<open>D3 - D3 div s\<close> on,
  and the three later convolutions are stacked on the remainder alone: the retained slice
  goes only into the concatenation.
\<close>

theorem channel_split:
  assumes "0 \<le> D3" and "1 \<le> s" and "make_idn self inputs D3 d s = Inr (out, self')"
  shows "out =
     (let cr = conv3x3_relu (weight_decay self) (leaky_slope self);
          x3 = cr D3 (cr (D3 - d - d) (cr (D3 - d) inputs));
          R = SliceTo x3 (D3 div s);
          P2 = SliceFrom x3 (D3 div s)
      in Conv2d (Add (cr (D3 + d) (cr (D3 - d) (cr D3 P2))) (Concat [inputs, R] (- 1)))
           D3 1 Same (L2 (weight_decay self)) HeNormal)
     \<and> (let cr = conv3x3_relu (weight_decay self) (leaky_slope self);
             x3 = cr D3 (cr (D3 - d - d) (cr (D3 - d) inputs))
         in channels x3 = Some D3 \<and>
            channels (SliceTo x3 (D3 div s)) = Some (D3 div s) \<and>
            channels (SliceFrom x3 (D3 div s)) = Some (D3 - D3 div s))"
proof -
  have "out =
     (let cr = conv3x3_relu (weight_decay self) (leaky_slope self);
          x3 = cr D3 (cr (D3 - d - d) (cr (D3 - d) inputs));
          R = SliceTo x3 (D3 div s);
          P2 = SliceFrom x3 (D3 div s)
      in Conv2d (Add (cr (D3 + d) (cr (D3 - d) (cr D3 P2))) (Concat [inputs, R] (- 1)))
           D3 1 Same (L2 (weight_decay self)) HeNormal)"
    using make_idn_Inr(1) [OF assms(3)]
    by (simp add: distillation_block_def compression_def enhancement_def first_three_def
        last_three_def Let_def)
  moreover have "let cr = conv3x3_relu (weight_decay self) (leaky_slope self);
             x3 = cr D3 (cr (D3 - d - d) (cr (D3 - d) inputs))
         in channels x3 = Some D3 \<and>
            channels (SliceTo x3 (D3 div s)) = Some (D3 div s) \<and>
            channels (SliceFrom x3 (D3 div s)) = Some (D3 - D3 div s)"
    by (simp add: Let_def channels_conv3x3_relu slice_stop_div [OF assms(1,2)])
  ultimately show ?thesis by blast
qed

theorem channel_split_witness:
  "(0::int) \<le> 64 \<and> (1::int) \<le> 4 \<and>
   channels (retained_slice 0.0001 0.05 64 16 4 (Extern ''x'' (Some 64))) = Some 16 \<and>
   channels (processed_slice 0.0001 0.05 64 16 4 (Extern ''x'' (Some 64))) = Some 48 \<and>
   (\<exists>self'. make_idn example_net (Extern ''x'' (Some 64)) 64 16 4 =
      Inr (Conv2d
             (Add (last_three 0.0001 0.05 64 16
                     (processed_slice 0.0001 0.05 64 16 4 (Extern ''x'' (Some 64))))
                (Concat [Extern ''x'' (Some 64),
                         retained_slice 0.0001 0.05 64 16 4 (Extern ''x'' (Some 64))] (- 1)))
             64 1 Same (L2 0.0001) HeNormal,
           self'))"
proof -
  let ?x = "Extern ''x'' (Some 64)"
  have "block_accepted (weight_decay example_net) (leaky_slope example_net) 64 16 4 ?x"
    by (rule block_accepted_natural) simp_all
  from make_idn_ok [OF this] obtain self' where
    m: "make_idn example_net ?x 64 16 4 =
          Inr (distillation_block (weight_decay example_net) (leaky_slope example_net) 64 16 4 ?x,
               self')" by blast
  have e: "weight_decay example_net = 0.0001" "leaky_slope example_net = 0.05"
    by (simp_all add: example_net_def default_weight_decay_def default_leaky_slope_def)
  from channel_split [OF _ _ m]
  have c: "channels (retained_slice 0.0001 0.05 64 16 4 ?x) = Some 16"
      "channels (processed_slice 0.0001 0.05 64 16 4 ?x) = Some 48"
    by (simp_all add: Let_def e retained_slice_def processed_slice_def first_three_def
        channels_conv3x3_relu slice_stop_def)
  have "make_idn example_net ?x 64 16 4 =
      Inr (Conv2d
             (Add (last_three 0.0001 0.05 64 16 (processed_slice 0.0001 0.05 64 16 4 ?x))
                (Concat [?x, retained_slice 0.0001 0.05 64 16 4 ?x] (- 1)))
             64 1 Same (L2 0.0001) HeNormal,
           self')"
    by (simp add: m e distillation_block_def compression_def enhancement_split)
  with c show ?thesis by simp
qed

text \<open>
  The claim as stated fails for a negative slice factor, where the index \<open>D3 div s\<close> is
  negative and counts from the end: with three filters, delta 1 and slice factor -2 the
  block is built, its retained slice has one channel (not -2) and the remainder two
  (not 5).
\<close>

theorem channel_split_counterexample:
  "map_sum id fst (make_idn example_net (Extern ''x'' (Some 3)) 3 1 (- 2)) =
     Inr (Conv2d
            (Add (last_three 0.0001 0.05 3 1
                    (processed_slice 0.0001 0.05 3 1 (- 2) (Extern ''x'' (Some 3))))
               (Concat [Extern ''x'' (Some 3),
                        retained_slice 0.0001 0.05 3 1 (- 2) (Extern ''x'' (Some 3))] (- 1)))
            3 1 Same (L2 0.0001) HeNormal) \<and>
   channels (retained_slice 0.0001 0.05 3 1 (- 2) (Extern ''x'' (Some 3))) = Some 1 \<and>
   (3 :: int) div (- 2) = - 2 \<and>
   channels (processed_slice 0.0001 0.05 3 1 (- 2) (Extern ''x'' (Some 3))) = Some 2 \<and>
   (3 :: int) - 3 div (- 2) = 5"
  by (simp add: make_idn_def conv2d_def layer_refused_def add_compatible_def broadcastable_def
      Let_def retained_slice_def processed_slice_def
      first_three_def last_three_def conv3x3_relu_def slice_stop_def example_net_def
      default_weight_decay_def default_leaky_slope_def)

text \<open>
  C4, as amended. For a slice factor of at least one, positive filter counts throughout
  (\<open>1 \<le> D3 - 2 * d\<close> and \<open>1 \<le> D3 + d\<close>) and a block input of \<open>D3\<close> channels, the
  sixth convolution has \<open>D3 + d\<close> channels and the concatenation \<open>D3 + D3 div s\<close>, and
  their addition is shape-compatible exactly when \<open>d = D3 div s\<close> or one of the two has a
  single channel, which the addition broadcasts. When it is, the call returns the block
  built on that addition; when it is not, the call raises \<^verbatim>\<open>ValueError\<close>.
\<close>

theorem residual_add_shape:
  assumes "1 \<le> s" and "1 \<le> D3 - 2 * d" and "1 \<le> D3 + d" and "channels inputs = Some D3"
  shows "(let x6 = last_three (weight_decay self) (leaky_slope self) D3 d
                     (processed_slice (weight_decay self) (leaky_slope self) D3 d s inputs);
              cat = Concat [inputs,
                      retained_slice (weight_decay self) (leaky_slope self) D3 d s inputs] (- 1)
          in channels x6 = Some (D3 + d) \<and> channels cat = Some (D3 + D3 div s) \<and>
             (add_compatible x6 cat \<longleftrightarrow> d = D3 div s \<or> D3 + d = 1 \<or> D3 + D3 div s = 1) \<and>
             (add_compatible x6 cat \<longrightarrow>
                (\<exists>self'. make_idn self inputs D3 d s =
                   Inr (Conv2d (Add x6 cat) D3 1 Same (L2 (weight_decay self)) HeNormal, self'))) \<and>
             (\<not> add_compatible x6 cat \<longrightarrow> make_idn self inputs D3 d s = Inl ValueError))
       \<and> (residual_add_compatible (make_idn self inputs D3 d s) \<longleftrightarrow>
            d = D3 div s \<or> D3 + d = 1 \<or> D3 + D3 div s = 1)"
proof -
  let ?wd = "weight_decay self" and ?ls = "leaky_slope self"
  let ?x6 = "last_three ?wd ?ls D3 d (processed_slice ?wd ?ls D3 d s inputs)"
  let ?cat = "Concat [inputs, retained_slice ?wd ?ls D3 d s inputs] (- 1)"
  let ?cond = "d = D3 div s \<or> D3 + d = 1 \<or> D3 + D3 div s = 1"
  from assms(2,3) have p: "1 \<le> D3 - d - d" "1 \<le> D3 - d" "1 \<le> D3" "0 \<le> D3" by simp_all
  from assms(1) have s0: "s \<noteq> 0" by simp
  from assms(4) have ci: "channels inputs \<noteq> None" by simp
  have c6: "channels ?x6 = Some (D3 + d)" by (rule channels_last_three)
  have cc: "channels ?cat = Some (D3 + D3 div s)"
    by (simp only: channels_concat assms(4) option.map slice_stop_div [OF p(4) assms(1)])
  have "add_compatible ?x6 ?cat \<longleftrightarrow> broadcastable (D3 + d) (D3 + D3 div s)"
    by (simp only: add_compatible_def c6 cc) simp
  also have "\<dots> \<longleftrightarrow> ?cond" by (simp add: broadcastable_def)
  finally have ac: "add_compatible ?x6 ?cat \<longleftrightarrow> ?cond" .
  have ok: "\<exists>self'. make_idn self inputs D3 d s =
      Inr (Conv2d (Add ?x6 ?cat) D3 1 Same (L2 ?wd) HeNormal, self')" if "add_compatible ?x6 ?cat"
  proof -
    from that s0 p assms(3) ci have "block_accepted ?wd ?ls D3 d s inputs"
      by (simp add: block_accepted_def)
    from make_idn_ok [OF this] show ?thesis
      by (simp add: distillation_block_def compression_def enhancement_split)
  qed
  have no: "make_idn self inputs D3 d s = Inl ValueError" if "\<not> add_compatible ?x6 ?cat"
    by (rule make_idn_add_refused [OF s0 p(1-3) assms(3) ci that])
  have r: "residual_add_compatible (make_idn self inputs D3 d s) \<longleftrightarrow> ?cond"
  proof (cases "add_compatible ?x6 ?cat")
    case True
    from ok [OF True] obtain self' where
      "make_idn self inputs D3 d s = Inr (Conv2d (Add ?x6 ?cat) D3 1 Same (L2 ?wd) HeNormal, self')"
      by blast
    then have "residual_add_compatible (make_idn self inputs D3 d s)"
      using True by (simp add: residual_add_compatible_def)
    with True ac show ?thesis by blast
  next
    case False
    from no [OF False] have "\<not> residual_add_compatible (make_idn self inputs D3 d s)"
      by (simp add: residual_add_compatible_def)
    with False ac show ?thesis by blast
  qed
  from c6 cc ac ok no r show ?thesis unfolding Let_def by blast
qed

theorem residual_add_shape_witness:
  "(1::int) \<le> 4 \<and> (1::int) \<le> 64 - 2 * 16 \<and> (1::int) \<le> 64 + 16 \<and>
   (1::int) \<le> 64 - 2 * 8 \<and> (1::int) \<le> 64 + 8 \<and>
   channels (Extern ''x'' (Some 64)) = Some 64 \<and>
   residual_add_compatible
     (make_idn example_net (Extern ''x'' (Some 64)) default_filters default_delta
        default_slice_factor) \<and>
   \<not> residual_add_compatible (make_idn example_net (Extern ''x'' (Some 64)) 64 8 4) \<and>
   make_idn example_net (Extern ''x'' (Some 64)) 64 8 4 = Inl ValueError"
proof -
  let ?x = "Extern ''x'' (Some 64)"
  have h: "(1::int) \<le> 4" "(1::int) \<le> 64 - 2 * 16" "(1::int) \<le> 64 + 16"
    "(1::int) \<le> 64 - 2 * 8" "(1::int) \<le> 64 + 8" "channels ?x = Some 64"
    by simp_all
  note a = residual_add_shape [of 4 64 16 ?x example_net, OF h(1) h(2) h(3) h(6), unfolded Let_def]
  note b = residual_add_shape [of 4 64 8 ?x example_net, OF h(1) h(4) h(5) h(6), unfolded Let_def]
  have y: "(16::int) = 64 div 4 \<or> (64::int) + 16 = 1 \<or> (64::int) + 64 div 4 = 1" by simp
  have n: "\<not> ((8::int) = 64 div 4 \<or> (64::int) + 8 = 1 \<or> (64::int) + 64 div 4 = 1)" by simp
  from conjunct2 [OF a] y
  have 1: "residual_add_compatible (make_idn example_net ?x 64 16 4)" by blast
  from conjunct2 [OF b] n
  have 2: "\<not> residual_add_compatible (make_idn example_net ?x 64 8 4)" by blast
  from conjunct1 [OF b] n
  have 3: "make_idn example_net ?x 64 8 4 = Inl ValueError" by blast
  from 1 have d1: "residual_add_compatible
     (make_idn example_net ?x default_filters default_delta default_slice_factor)"
    by (simp only: default_filters_def default_delta_def default_slice_factor_def)
  from h d1 2 3 show ?thesis by (intro conjI)
qed

text \<open>
  The claim as stated fails where the addition broadcasts (four filters, delta -3, slice
  factor 4: one channel against five) and for a negative slice factor (three filters,
  delta 1, slice factor -2: four channels against four).
\<close>

theorem residual_add_broadcast_counterexample:
  "residual_add_compatible (make_idn example_net (Extern ''x'' (Some 4)) 4 (- 3) 4) \<and>
   (- 3 :: int) \<noteq> 4 div 4 \<and>
   residual_add_compatible (make_idn example_net (Extern ''x'' (Some 3)) 3 1 (- 2)) \<and>
   (1 :: int) \<noteq> 3 div (- 2)"
  by (simp add: make_idn_def conv2d_def layer_refused_def Let_def residual_add_compatible_def
      add_compatible_def broadcastable_def slice_stop_def)

section \<open>The graph\<close>




section \<open>The loss\<close>

text \<open>
  C3. When an output exists, \<^verbatim>\<open>build_loss\<close> records the mean squared error and the
  mean absolute error between the label cast to float32 and the last output, PSNR and
  SSIM of the two, and the sum of the regularization losses, under the keys
  \<^verbatim>\<open>mse\<close>, \<^verbatim>\<open>mae\<close>, \<^verbatim>\<open>psnr\<close>, \<^verbatim>\<open>ssim\<close> and \<^verbatim>\<open>regularization\<close>; and it appends to
  the loss list exactly one operation, Adam's \<^verbatim>\<open>minimize\<close> of the training objective,
  which is one of the two errors plus the regularization.
\<close>

theorem build_loss_records:
  assumes "outputs self \<noteq> []"
  shows "\<exists>self'. build_loss self = Inr self' \<and>
     (let y_true = Cast (Placeholder UInt8 [None, None, None, Some 1]) Float32;
          y_pred = last (outputs self);
          mse = MeanSquaredError y_true y_pred;
          mae = AbsoluteDifference y_true y_pred;
          reg = AddN (regularization_losses self)
      in metrics self' ''mse'' = Some mse \<and>
         metrics self' ''mae'' = Some mae \<and>
         metrics self' ''psnr'' = Some (Psnr y_true y_pred 255) \<and>
         metrics self' ''ssim'' = Some (Ssim y_true y_pred 255) \<and>
         metrics self' ''regularization'' = Some reg \<and>
         (\<exists>objective. (objective = Add mae reg \<or> objective = Add mse reg) \<and>
            loss self' = loss self @ [AdamMinimize (learning_rate self) objective]))"
  by (simp add: build_loss_eq [OF assms] Let_def)

theorem build_loss_records_witness:
  "outputs example_built \<noteq> [] \<and>
   (\<exists>self'. build_loss example_built = Inr self' \<and>
      metrics self' ''mse'' =
        Some (MeanSquaredError (Cast (Placeholder UInt8 [None, None, None, Some 1]) Float32)
                (Extern ''sr'' (Some 1))) \<and>
      metrics self' ''mae'' =
        Some (AbsoluteDifference (Cast (Placeholder UInt8 [None, None, None, Some 1]) Float32)
                (Extern ''sr'' (Some 1))) \<and>
      metrics self' ''psnr'' =
        Some (Psnr (Cast (Placeholder UInt8 [None, None, None, Some 1]) Float32)
                (Extern ''sr'' (Some 1)) 255) \<and>
      metrics self' ''ssim'' =
        Some (Ssim (Cast (Placeholder UInt8 [None, None, None, Some 1]) Float32)
                (Extern ''sr'' (Some 1)) 255) \<and>
      metrics self' ''regularization'' =
        Some (AddN [KernelRegularization (Extern ''sr'' (Some 1))]) \<and>
      length (loss self') = 1)"
proof -
  have o: "outputs example_built \<noteq> []" by (simp add: example_built_def)
  have l: "loss example_built = []" by (simp add: example_built_def example_net_def)
  have p: "last (outputs example_built) = Extern ''sr'' (Some 1)"
    by (simp add: example_built_def)
  have r: "regularization_losses example_built = [KernelRegularization (Extern ''sr'' (Some 1))]"
    by (simp add: example_built_def)
  from build_loss_records [OF o] show ?thesis
    by (simp only: Let_def l p r) (use o in auto)
qed

text \<open>
  C6. The objective that the optimizer minimizes is the mean absolute error plus the
  regularization loss when \<^verbatim>\<open>fine_tune\<close> is set, and the mean squared error plus the
  regularization loss when it is not; \<^verbatim>\<open>mse\<close> and \<^verbatim>\<open>mae\<close> are recorded in the metrics
  in both modes.
\<close>

theorem build_loss_objective:
  assumes "outputs self \<noteq> []"
  shows "\<exists>self'. build_loss self = Inr self' \<and>
     (let y_true = Cast (last (label self')) Float32;
          y_pred = last (outputs self);
          mse = MeanSquaredError y_true y_pred;
          mae = AbsoluteDifference y_true y_pred;
          regular_loss = AddN (regularization_losses self)
      in loss self' = loss self @
           [AdamMinimize (learning_rate self)
              (if fine_tune self then Add mae regular_loss else Add mse regular_loss)] \<and>
         metrics self' ''mse'' = Some mse \<and>
         metrics self' ''mae'' = Some mae)"
  by (simp add: build_loss_eq [OF assms] Let_def)

theorem build_loss_objective_witness:
  "outputs example_built \<noteq> [] \<and>
   (\<exists>self'. build_loss example_built = Inr self' \<and>
      loss self' =
        [AdamMinimize (Extern ''learning_rate'' None)
           (Add (MeanSquaredError (Cast (last (label self')) Float32) (Extern ''sr'' (Some 1)))
              (AddN [KernelRegularization (Extern ''sr'' (Some 1))]))]) \<and>
   (\<exists>self'. build_loss (example_built\<lparr>fine_tune := True\<rparr>) = Inr self' \<and>
      loss self' =
        [AdamMinimize (Extern ''learning_rate'' None)
           (Add (AbsoluteDifference (Cast (last (label self')) Float32) (Extern ''sr'' (Some 1)))
              (AddN [KernelRegularization (Extern ''sr'' (Some 1))]))])"
proof -
  have o: "outputs example_built \<noteq> []" by (simp add: example_built_def)
  have o': "outputs (example_built\<lparr>fine_tune := True\<rparr>) \<noteq> []" by (simp add: example_built_def)
  have f: "\<not> fine_tune example_built"
    by (simp add: example_built_def example_net_def default_fine_tune_def)
  have e: "loss example_built = []" "last (outputs example_built) = Extern ''sr'' (Some 1)"
    "regularization_losses example_built = [KernelRegularization (Extern ''sr'' (Some 1))]"
    "learning_rate example_built = Extern ''learning_rate'' None"
    by (simp_all add: example_built_def example_net_def)
  from build_loss_objective [OF o] have 1:
    "\<exists>self'. build_loss example_built = Inr self' \<and>
      loss self' =
        [AdamMinimize (Extern ''learning_rate'' None)
           (Add (MeanSquaredError (Cast (last (label self')) Float32) (Extern ''sr'' (Some 1)))
              (AddN [KernelRegularization (Extern ''sr'' (Some 1))]))]"
    by (simp only: Let_def e f if_False append_Nil) blast
  from build_loss_objective [OF o'] have 2:
    "\<exists>self'. build_loss (example_built\<lparr>fine_tune := True\<rparr>) = Inr self' \<and>
      loss self' =
        [AdamMinimize (Extern ''learning_rate'' None)
           (Add (AbsoluteDifference (Cast (last (label self')) Float32) (Extern ''sr'' (Some 1)))
              (AddN [KernelRegularization (Extern ''sr'' (Some 1))]))]"
    by (simp add: Let_def e) blast
  from o 1 2 show ?thesis by blast
qed

section \<open>The summaries\<close>

text \<open>
  C7. With the five metrics present, \<^verbatim>\<open>build_summary\<close> publishes exactly five scalar
  summaries, in this order: \<^verbatim>\<open>loss/mse\<close>, \<^verbatim>\<open>loss/mae\<close> and \<^verbatim>\<open>loss/weight\<close> from the
  metrics \<^verbatim>\<open>mse\<close>, \<^verbatim>\<open>mae\<close> and \<^verbatim>\<open>regularization\<close>, and \<^verbatim>\<open>metric/psnr\<close> and
  \<^verbatim>\<open>metric/ssim\<close> as the means of the metrics \<^verbatim>\<open>psnr\<close> and \<^verbatim>\<open>ssim\<close>. Nothing else
  of the object or the graph changes.
\<close>

theorem build_summary_publishes:
  assumes "metrics self ''mse'' = Some mse"
    and "metrics self ''mae'' = Some mae"
    and "metrics self ''regularization'' = Some reg"
    and "metrics self ''psnr'' = Some psnr"
    and "metrics self ''ssim'' = Some ssim"
  shows "build_summary self =
     Inr (self\<lparr>summaries := summaries self @
            [(''loss/mse'', mse), (''loss/mae'', mae), (''loss/weight'', reg),
             (''metric/psnr'', ReduceMean psnr), (''metric/ssim'', ReduceMean ssim)]\<rparr>)"
  using assms by (simp add: build_summary_def metric_def summary_scalar_def Let_def)

theorem build_summary_publishes_witness:
  "\<exists>self'. build_loss example_built = Inr self' \<and>
     (\<exists>self''. build_summary self' = Inr self'' \<and>
        map fst (summaries self'') =
          [''loss/mse'', ''loss/mae'', ''loss/weight'', ''metric/psnr'', ''metric/ssim''] \<and>
        summaries self'' ! 3 =
          (''metric/psnr'',
           ReduceMean (Psnr (Cast (Placeholder UInt8 [None, None, None, Some 1]) Float32)
                         (Extern ''sr'' (Some 1)) 255)))"
proof -
  have o: "outputs example_built \<noteq> []" by (simp add: example_built_def)
  from build_loss_eq [OF o] obtain self' where b: "build_loss example_built = Inr self'"
    and m: "metrics self' ''mse'' = Some (MeanSquaredError (Cast (Placeholder UInt8 [None, None, None, Some 1]) Float32) (Extern ''sr'' (Some 1)))"
      "metrics self' ''mae'' = Some (AbsoluteDifference (Cast (Placeholder UInt8 [None, None, None, Some 1]) Float32) (Extern ''sr'' (Some 1)))"
      "metrics self' ''regularization'' = Some (AddN [KernelRegularization (Extern ''sr'' (Some 1))])"
      "metrics self' ''psnr'' = Some (Psnr (Cast (Placeholder UInt8 [None, None, None, Some 1]) Float32) (Extern ''sr'' (Some 1)) 255)"
      "metrics self' ''ssim'' = Some (Ssim (Cast (Placeholder UInt8 [None, None, None, Some 1]) Float32) (Extern ''sr'' (Some 1)) 255)"
    and s: "summaries self' = []"
    by (simp add: Let_def example_built_def example_net_def)
  from build_summary_publishes [OF m] s b show ?thesis by simp
qed

section \<open>What the hooks read and write\<close>




section \<open>Channels of the output and the label\<close>




end
